theory Spec2Isabelle
  imports Complex_Main
begin

section \<open>The record store of \<^verbatim>\<open>JSONDatabase\<close>\<close>

text \<open>
  \<^verbatim>\<open>JSONDatabase.data\<close> is a dictionary of collections, each a list of dictionaries.
  The collections the inventory ledger reads and writes are \<^verbatim>\<open>inventory\<close>,
  \<^verbatim>\<open>inventory_locations\<close>, \<^verbatim>\<open>invoice_items\<close> and \<^verbatim>\<open>audit_log\<close>. Each dictionary
  is a record with the keys the ledger code reads; Python's unbounded integers are
  \<open>int\<close>. The in-memory dictionary is the state: \<^verbatim>\<open>_save_data\<close> writes it to the JSON
  file and reports a failed write with \<^verbatim>\<open>st.error\<close> without undoing anything, so it
  does not appear here.

  \<^verbatim>\<open>_initialize_db\<close> creates \<^verbatim>\<open>inventory\<close>, \<^verbatim>\<open>invoice_items\<close> and \<^verbatim>\<open>audit_log\<close>
  but no \<^verbatim>\<open>inventory_locations\<close> key, so that collection is optional: \<open>None\<close> is the
  absent key, where \<^verbatim>\<open>self.data['inventory_locations']\<close> raises \<^verbatim>\<open>KeyError\<close>.
\<close>

datatype py_exn = KeyError | TypeError

text \<open>A product: the keys \<^verbatim>\<open>id\<close>, \<^verbatim>\<open>name\<close>, \<^verbatim>\<open>quantity\<close>, \<^verbatim>\<open>location_id\<close>
  (read with \<^verbatim>\<open>.get\<close>), and all remaining keys (price, barcode, ...) kept as they are.\<close>

record item =
  item_id :: string
  item_name :: string
  item_quantity :: int
  item_location_id :: "string option"
  item_other :: "(string \<times> string) list"

text \<open>The dictionary \<^verbatim>\<open>transfer_inventory\<close> hands to \<^verbatim>\<open>add_inventory_location\<close>, and the
  row stored from it once \<^verbatim>\<open>id\<close> and \<^verbatim>\<open>created_at\<close> are set.\<close>

record location_data =
  ld_product_id :: string
  ld_location_id :: string
  ld_quantity :: int

record inv_loc =
  il_id :: string
  il_product_id :: string
  il_location_id :: string
  il_quantity :: int
  il_created_at :: string

text \<open>An invoice line as the invoice form keeps it in the session, and as it is stored.
  The three amounts are floats that are only copied, never computed with.\<close>

record line_item =
  li_item_id :: string
  li_item_name :: string
  li_quantity :: int
  li_unit_price :: real
  li_discount :: real
  li_total_price :: real

record invoice_item =
  ii_id :: string
  ii_invoice_id :: string
  ii_item_id :: string
  ii_item_name :: string
  ii_quantity :: int
  ii_unit_price :: real
  ii_discount :: real
  ii_total_price :: real

record audit_entry =
  al_id :: string
  al_user_id :: string
  al_action :: string
  al_details :: string
  al_timestamp :: string

record store =
  inventory :: "item list"
  inventory_locations :: "inv_loc list option"
  invoice_items :: "invoice_item list"
  audit_log :: "audit_entry list"

text \<open>What \<^verbatim>\<open>str(uuid.uuid4())\<close> and \<^verbatim>\<open>datetime.datetime.now().isoformat()\<close> return at
  one call that creates a record.\<close>

record stamp =
  uuid4 :: string
  now_iso :: string

section \<open>Python helpers\<close>

text \<open>\<^verbatim>\<open>str(n)\<close> for an integer, as the f-strings of the audit details use it.\<close>

definition digit_char :: "nat \<Rightarrow> char" where
  "digit_char d = ''0123456789'' ! d"

function str_nat :: "nat \<Rightarrow> string" where
  "str_nat n = (if n < 10 then [digit_char n] else str_nat (n div 10) @ [digit_char (n mod 10)])"
  by pat_completeness auto
termination
  by (relation "measure (\<lambda>n. n)") auto

declare str_nat.simps [simp del]

definition str_int :: "int \<Rightarrow> string" where
  "str_int i = (if i < 0 then CHR ''-'' # str_nat (nat (- i)) else str_nat (nat i))"

text \<open>Truth value of an optional string argument: \<^verbatim>\<open>None\<close> and \<^verbatim>\<open>''\<close> are false.\<close>

fun truthy :: "string option \<Rightarrow> bool" where
  "truthy None = False"
| "truthy (Some v) = (v \<noteq> [])"

text \<open>\<^verbatim>\<open>d.update(update_data)\<close> on the first element a generator expression finds:
  the first element that satisfies the test is replaced, every other one is kept.\<close>

fun update_first :: "('a \<Rightarrow> bool) \<Rightarrow> ('a \<Rightarrow> 'a) \<Rightarrow> 'a list \<Rightarrow> 'a list" where
  "update_first P f [] = []"
| "update_first P f (x # xs) = (if P x then f x # xs else x # update_first P f xs)"

section \<open>Methods of \<^verbatim>\<open>JSONDatabase\<close>\<close>

definition get_inventory_items :: "store \<Rightarrow> item list" where
  "get_inventory_items s = inventory s"

definition get_inventory_item :: "store \<Rightarrow> string \<Rightarrow> item option" where
  "get_inventory_item s iid = find (\<lambda>i. item_id i = iid) (inventory s)"

text \<open>The update dictionary \<^verbatim>\<open>{'quantity': n}\<close>, the only one the ledger passes.\<close>

definition quantity_update :: "int \<Rightarrow> item \<Rightarrow> item" where
  "quantity_update n i = i\<lparr>item_quantity := n\<rparr>"

definition update_inventory_item :: "store \<Rightarrow> string \<Rightarrow> (item \<Rightarrow> item) \<Rightarrow> bool \<times> store" where
  "update_inventory_item s iid update_data =
     (case find (\<lambda>i. item_id i = iid) (inventory s) of
        Some _ \<Rightarrow> (True, s\<lparr>inventory := update_first (\<lambda>i. item_id i = iid) update_data (inventory s)\<rparr>)
      | None \<Rightarrow> (False, s))"

text \<open>\<^verbatim>\<open>add_inventory_location\<close> catches every exception, reports it with \<^verbatim>\<open>st.error\<close>
  and returns \<^verbatim>\<open>None\<close>; otherwise it appends the row and returns the new id.\<close>

definition add_inventory_location :: "store \<Rightarrow> stamp \<Rightarrow> location_data \<Rightarrow> string option \<times> store" where
  "add_inventory_location s g d =
     (case inventory_locations s of
        None \<Rightarrow> (None, s)
      | Some rows \<Rightarrow>
          (Some (uuid4 g),
           s\<lparr>inventory_locations := Some (rows @
              [\<lparr>il_id = uuid4 g, il_product_id = ld_product_id d, il_location_id = ld_location_id d,
                il_quantity = ld_quantity d, il_created_at = now_iso g\<rparr>])\<rparr>))"

definition get_inventory_locations ::
    "store \<Rightarrow> string option \<Rightarrow> string option \<Rightarrow> py_exn + inv_loc list" where
  "get_inventory_locations s product_id location_id =
     (case inventory_locations s of
        None \<Rightarrow> Inl KeyError
      | Some rows \<Rightarrow>
          Inr (if truthy product_id \<and> truthy location_id then
                 filter (\<lambda>il. Some (il_product_id il) = product_id \<and> Some (il_location_id il) = location_id) rows
               else if truthy product_id then
                 filter (\<lambda>il. Some (il_product_id il) = product_id) rows
               else if truthy location_id then
                 filter (\<lambda>il. Some (il_location_id il) = location_id) rows
               else rows))"

text \<open>The update dictionary \<^verbatim>\<open>{'quantity': n}\<close> for a location row.\<close>

definition loc_quantity_update :: "int \<Rightarrow> inv_loc \<Rightarrow> inv_loc" where
  "loc_quantity_update n il = il\<lparr>il_quantity := n\<rparr>"

definition update_inventory_location ::
    "store \<Rightarrow> string \<Rightarrow> (inv_loc \<Rightarrow> inv_loc) \<Rightarrow> py_exn + bool \<times> store" where
  "update_inventory_location s lid update_data =
     (case inventory_locations s of
        None \<Rightarrow> Inl KeyError
      | Some rows \<Rightarrow>
          (case find (\<lambda>il. il_id il = lid) rows of
             Some _ \<Rightarrow> Inr (True, s\<lparr>inventory_locations :=
                                     Some (update_first (\<lambda>il. il_id il = lid) update_data rows)\<rparr>)
           | None \<Rightarrow> Inr (False, s)))"

definition get_total_inventory_by_product :: "store \<Rightarrow> string \<Rightarrow> py_exn + int" where
  "get_total_inventory_by_product s product_id =
     (case get_inventory_locations s (Some product_id) None of
        Inl e \<Rightarrow> Inl e
      | Inr locations \<Rightarrow> Inr (sum_list (map il_quantity locations)))"

text \<open>\<^verbatim>\<open>log_audit\<close> appends one entry; its callers ignore the id it returns.\<close>

definition log_audit :: "store \<Rightarrow> stamp \<Rightarrow> string \<Rightarrow> string \<Rightarrow> string \<Rightarrow> store" where
  "log_audit s g user_id action details =
     s\<lparr>audit_log := audit_log s @
         [\<lparr>al_id = uuid4 g, al_user_id = user_id, al_action = action, al_details = details,
           al_timestamp = now_iso g\<rparr>]\<rparr>"

definition add_invoice_item :: "store \<Rightarrow> string \<Rightarrow> string \<Rightarrow> line_item \<Rightarrow> string \<times> store" where
  "add_invoice_item s new_id invoice_id li =
     (new_id,
      s\<lparr>invoice_items := invoice_items s @
          [\<lparr>ii_id = new_id, ii_invoice_id = invoice_id, ii_item_id = li_item_id li,
            ii_item_name = li_item_name li, ii_quantity = li_quantity li,
            ii_unit_price = li_unit_price li, ii_discount = li_discount li,
            ii_total_price = li_total_price li\<rparr>]\<rparr>)"

subsection \<open>\<^verbatim>\<open>transfer_inventory\<close>\<close>

text \<open>
  The method returns a pair of a flag and a message:
  \<^verbatim>\<open>(True, "Inventory transferred successfully")\<close>,
  \<^verbatim>\<open>(False, "Not enough inventory at source location")\<close>, or, from the
  \<^verbatim>\<open>except Exception\<close> clause around the whole body,
  \<^verbatim>\<open>(False, f"Error transferring inventory: {e}")\<close>. There is no other outcome.
  \<open>user_id\<close> is \<^verbatim>\<open>st.session_state.user_id\<close>, which \<^verbatim>\<open>login\<close> sets; \<^verbatim>\<open>main\<close> shows
  nothing but the login form until then.
\<close>

datatype transfer_result =
    Transferred_successfully
  | Not_enough_inventory
  | Error_transferring py_exn

fun transfer_ok :: "transfer_result \<Rightarrow> bool" where
  "transfer_ok Transferred_successfully = True"
| "transfer_ok _ = False"

definition transfer_details :: "int \<Rightarrow> string \<Rightarrow> string \<Rightarrow> string \<Rightarrow> string \<Rightarrow> string" where
  "transfer_details quantity product_id from_location_id to_location_id reason =
     ''Transferred '' @ str_int quantity @ '' units of '' @ product_id @ '' from '' @
     from_location_id @ '' to '' @ to_location_id @ ''. Reason: '' @ reason"

definition transfer_inventory ::
    "store \<Rightarrow> stamp \<Rightarrow> stamp \<Rightarrow> string \<Rightarrow> string \<Rightarrow> string \<Rightarrow> string \<Rightarrow> int \<Rightarrow> string
      \<Rightarrow> transfer_result \<times> store" where
  "transfer_inventory s g_loc g_log user_id product_id from_location_id to_location_id quantity reason =
     (case get_inventory_locations s (Some product_id) (Some from_location_id) of
        Inl e \<Rightarrow> (Error_transferring e, s)
      | Inr [] \<Rightarrow> (Not_enough_inventory, s)
      | Inr (source_loc # _) \<Rightarrow>
          if il_quantity source_loc < quantity then (Not_enough_inventory, s)
          else
            (case update_inventory_location s (il_id source_loc)
                    (loc_quantity_update (il_quantity source_loc - quantity)) of
               Inl e \<Rightarrow> (Error_transferring e, s)
             | Inr (_, s1) \<Rightarrow>
                 (case get_inventory_locations s1 (Some product_id) (Some to_location_id) of
                    Inl e \<Rightarrow> (Error_transferring e, s1)
                  | Inr (dest_loc # _) \<Rightarrow>
                      (case update_inventory_location s1 (il_id dest_loc)
                              (loc_quantity_update (il_quantity dest_loc + quantity)) of
                         Inl e \<Rightarrow> (Error_transferring e, s1)
                       | Inr (_, s2) \<Rightarrow>
                           (Transferred_successfully,
                            log_audit s2 g_log user_id ''inventory_transfer''
                              (transfer_details quantity product_id from_location_id to_location_id reason)))
                  | Inr [] \<Rightarrow>
                      (let s2 = snd (add_inventory_location s1 g_loc
                                 \<lparr>ld_product_id = product_id, ld_location_id = to_location_id,
                                  ld_quantity = quantity\<rparr>)
                       in (Transferred_successfully,
                           log_audit s2 g_log user_id ''inventory_transfer''
                             (transfer_details quantity product_id from_location_id to_location_id reason))))))"

section \<open>The stock handlers of the dashboard and of the invoice form\<close>

text \<open>
  What a form handler shows: \<^verbatim>\<open>st.success(msg)\<close>, \<^verbatim>\<open>st.error(msg)\<close>, or an exception
  that leaves the handler. \<^verbatim>\<open>main\<close> runs the handlers only for an authenticated session,
  so \<^verbatim>\<open>st.session_state.user_id\<close> is set: it is the \<open>user_id\<close> argument.
\<close>

datatype ui_outcome = St_success string | St_error string | Raised py_exn

text \<open>"Receive Stock" (\<^verbatim>\<open>inventory_dashboard\<close>, tab 4): \<^verbatim>\<open>product['quantity']\<close> on
  \<^verbatim>\<open>None\<close> raises \<^verbatim>\<open>TypeError\<close>.\<close>

definition receive_stock :: "store \<Rightarrow> stamp \<Rightarrow> string \<Rightarrow> string \<Rightarrow> int \<Rightarrow> ui_outcome \<times> store" where
  "receive_stock s g user_id product_id quantity =
     (case get_inventory_item s product_id of
        None \<Rightarrow> (Raised TypeError, s)
      | Some product \<Rightarrow>
          (let new_qty = item_quantity product + quantity;
               s1 = snd (update_inventory_item s product_id (quantity_update new_qty));
               s2 = log_audit s1 g user_id ''stock_received''
                      (''Received '' @ str_int quantity @ '' units of '' @ item_name product @
                       ''. New stock: '' @ str_int new_qty)
           in (St_success (''Stock updated! New quantity: '' @ str_int new_qty), s2)))"

text \<open>"Adjust Stock" (\<^verbatim>\<open>inventory_dashboard\<close>, tab 4).\<close>

definition adjust_stock ::
    "store \<Rightarrow> stamp \<Rightarrow> string \<Rightarrow> string \<Rightarrow> int \<Rightarrow> string \<Rightarrow> ui_outcome \<times> store" where
  "adjust_stock s g user_id product_id adjustment reason =
     (case get_inventory_item s product_id of
        None \<Rightarrow> (Raised TypeError, s)
      | Some product \<Rightarrow>
          (let new_qty = item_quantity product + adjustment
           in if new_qty < 0 then (St_error ''Cannot have negative stock'', s)
              else
                (let s1 = snd (update_inventory_item s product_id (quantity_update new_qty));
                     s2 = log_audit s1 g user_id ''stock_adjusted''
                            (''Adjusted '' @ item_name product @ '' by '' @ str_int adjustment @
                             ''. Reason: '' @ reason @ ''. New stock: '' @ str_int new_qty)
                 in (St_success (''Stock adjusted! New quantity: '' @ str_int new_qty), s2))))"

text \<open>"Transfer Stock" (\<^verbatim>\<open>inventory_dashboard\<close>, tab 4): the form works on the product's
  own \<^verbatim>\<open>location_id\<close> and quantity and does not call \<^verbatim>\<open>transfer_inventory\<close>.\<close>

definition transfer_stock ::
    "store \<Rightarrow> stamp \<Rightarrow> string \<Rightarrow> string \<Rightarrow> int \<Rightarrow> string \<Rightarrow> string \<Rightarrow> ui_outcome \<times> store" where
  "transfer_stock s g user_id product_id quantity from_location to_location =
     (case get_inventory_item s product_id of
        None \<Rightarrow> (Raised TypeError, s)
      | Some product \<Rightarrow>
          if item_location_id product \<noteq> Some from_location then
            (St_error ''Product is not at the selected source location'', s)
          else if item_quantity product < quantity then
            (St_error ''Not enough stock available for transfer'', s)
          else
            (let new_source_qty = item_quantity product - quantity;
                 s1 = snd (update_inventory_item s product_id (quantity_update new_source_qty));
                 s2 = log_audit s1 g user_id ''stock_transferred''
                        (''Transferred '' @ str_int quantity @ '' units of '' @ item_name product @
                         '' from '' @ from_location @ '' to '' @ to_location)
             in (St_success (''Transferred '' @ str_int quantity @ '' units to '' @ to_location), s2)))"

text \<open>"Deduct Stock" (\<^verbatim>\<open>inventory_dashboard\<close>, tab 1): \<open>product\<close> is the dictionary of
  the product list the button belongs to.\<close>

definition deduct_stock ::
    "store \<Rightarrow> stamp \<Rightarrow> string \<Rightarrow> item \<Rightarrow> int \<Rightarrow> string \<Rightarrow> ui_outcome \<times> store" where
  "deduct_stock s g user_id product deduct_qty reason =
     (let new_qty = item_quantity product - deduct_qty;
          new_qty = (if new_qty < 0 then 0 else new_qty);
          s1 = snd (update_inventory_item s (item_id product) (quantity_update new_qty));
          s2 = log_audit s1 g user_id ''stock_deducted''
                 (''Deducted '' @ str_int deduct_qty @ '' of '' @ item_name product @
                  ''. Reason: '' @ reason)
      in (St_success (''Stock updated! New quantity: '' @ str_int new_qty), s2))"

text \<open>"Create Invoice" (\<^verbatim>\<open>invoice_management\<close>): the body of the loop over the session's
  invoice items, run once \<^verbatim>\<open>add_invoice\<close> has returned the invoice id, and the loop.
  Each line comes with the id \<^verbatim>\<open>add_invoice_item\<close> draws for it.\<close>

definition invoice_deduct :: "store \<Rightarrow> string \<Rightarrow> string \<Rightarrow> line_item \<Rightarrow> store" where
  "invoice_deduct s new_id invoice_id li =
     (let s1 = snd (add_invoice_item s new_id invoice_id li)
      in case get_inventory_item s1 (li_item_id li) of
           None \<Rightarrow> s1
         | Some product \<Rightarrow>
             (let new_qty = item_quantity product - li_quantity li
              in snd (update_inventory_item s1 (li_item_id li) (quantity_update (max 0 new_qty)))))"

fun invoice_deduct_all :: "store \<Rightarrow> string \<Rightarrow> (string \<times> line_item) list \<Rightarrow> store" where
  "invoice_deduct_all s invoice_id [] = s"
| "invoice_deduct_all s invoice_id ((new_id, li) # rest) =
     invoice_deduct_all (invoice_deduct s new_id invoice_id li) invoice_id rest"

section \<open>Reading the ledger\<close>

text \<open>The quantity \<^verbatim>\<open>transfer_inventory\<close> consults for a product at a location: that of
  the first row \<^verbatim>\<open>get_inventory_locations(product_id, location_id)\<close> returns, and 0
  where there is none.\<close>

definition quantity_at :: "store \<Rightarrow> string \<Rightarrow> string \<Rightarrow> int" where
  "quantity_at s product_id location_id =
     (case get_inventory_locations s (Some product_id) (Some location_id) of
        Inr (il # _) \<Rightarrow> il_quantity il
      | _ \<Rightarrow> 0)"

text \<open>The aggregate \<^verbatim>\<open>Product.quantity\<close>.\<close>

definition product_quantity :: "store \<Rightarrow> string \<Rightarrow> int option" where
  "product_quantity s product_id = map_option item_quantity (get_inventory_item s product_id)"

text \<open>At most one row for each pair of a product and a location; no two rows with one id.\<close>

definition pair_of :: "inv_loc \<Rightarrow> string \<times> string" where
  "pair_of il = (il_product_id il, il_location_id il)"

definition unique_pairs :: "store \<Rightarrow> bool" where
  "unique_pairs s =
     (case inventory_locations s of None \<Rightarrow> True | Some rows \<Rightarrow> distinct (map pair_of rows))"

definition unique_row_ids :: "store \<Rightarrow> bool" where
  "unique_row_ids s =
     (case inventory_locations s of None \<Rightarrow> True | Some rows \<Rightarrow> distinct (map il_id rows))"

text \<open>What an operation on product \<open>product_id\<close> may change between two stores: no location
  row, no record of another product, and in the product's own records nothing but
  \<^verbatim>\<open>quantity\<close>.\<close>

definition only_quantity_changed :: "store \<Rightarrow> store \<Rightarrow> string \<Rightarrow> bool" where
  "only_quantity_changed s s' product_id =
     (inventory_locations s' = inventory_locations s \<and>
      list_all2 (\<lambda>old new. new\<lparr>item_quantity := item_quantity old\<rparr> = old \<and>
                             (item_id old \<noteq> product_id \<longrightarrow> new = old))
        (inventory s) (inventory s'))"

section \<open>Sequences of ledger operations\<close>

text \<open>One submitted form or method call, with its arguments, and what a sequence of them
  makes of a store. \<open>initial_store\<close> is the structure \<^verbatim>\<open>_initialize_db\<close> creates, restricted
  to the four collections above.\<close>

datatype ledger_op =
    Receive_stock stamp string string int
  | Adjust_stock stamp string string int string
  | Transfer_stock stamp string string int string string
  | Deduct_stock stamp string item int string
  | Invoice_deduct string string line_item
  | Transfer_inventory stamp stamp string string string string int string

fun apply_op :: "store \<Rightarrow> ledger_op \<Rightarrow> store" where
  "apply_op s (Receive_stock g u p q) = snd (receive_stock s g u p q)"
| "apply_op s (Adjust_stock g u p d r) = snd (adjust_stock s g u p d r)"
| "apply_op s (Transfer_stock g u p q a b) = snd (transfer_stock s g u p q a b)"
| "apply_op s (Deduct_stock g u product q r) = snd (deduct_stock s g u product q r)"
| "apply_op s (Invoice_deduct n i li) = invoice_deduct s n i li"
| "apply_op s (Transfer_inventory gl gg u p a b q r) = snd (transfer_inventory s gl gg u p a b q r)"

fun run_ops :: "store \<Rightarrow> ledger_op list \<Rightarrow> store" where
  "run_ops s [] = s"
| "run_ops s (op # ops) = run_ops (apply_op s op) ops"

definition initial_store :: store where
  "initial_store = \<lparr>inventory = [], inventory_locations = None, invoice_items = [], audit_log = []\<rparr>"

section \<open>A concrete store\<close>

text \<open>Product \<open>X\<close> with quantity 10, all of it at location \<open>A\<close> and none at \<open>B\<close>, and a
  second product \<open>Y\<close>.\<close>

definition demo_store :: store where
  "demo_store =
     \<lparr>inventory =
        [\<lparr>item_id = ''X'', item_name = ''Widget'', item_quantity = 10,
          item_location_id = Some ''A'', item_other = [(''price'', ''9.50'')]\<rparr>,
         \<lparr>item_id = ''Y'', item_name = ''Gadget'', item_quantity = 3,
          item_location_id = Some ''A'', item_other = []\<rparr>],
      inventory_locations = Some
        [\<lparr>il_id = ''r1'', il_product_id = ''X'', il_location_id = ''A'', il_quantity = 10,
          il_created_at = ''2024-01-01T09:00:00''\<rparr>,
         \<lparr>il_id = ''r2'', il_product_id = ''X'', il_location_id = ''B'', il_quantity = 0,
          il_created_at = ''2024-01-01T09:00:00''\<rparr>,
         \<lparr>il_id = ''r3'', il_product_id = ''Y'', il_location_id = ''A'', il_quantity = 3,
          il_created_at = ''2024-01-01T09:00:00''\<rparr>],
      invoice_items = [],
      audit_log = []\<rparr>"

definition stamp_1 :: stamp where
  "stamp_1 = \<lparr>uuid4 = ''u1'', now_iso = ''2024-01-02T10:00:00''\<rparr>"

definition stamp_2 :: stamp where
  "stamp_2 = \<lparr>uuid4 = ''u2'', now_iso = ''2024-01-02T10:00:01''\<rparr>"

definition demo_line :: "int \<Rightarrow> line_item" where
  "demo_line q =
     \<lparr>li_item_id = ''X'', li_item_name = ''Widget'', li_quantity = q, li_unit_price = 1,
      li_discount = 0, li_total_price = of_int q\<rparr>"

text \<open>The scenario: a transfer of 4 from \<open>A\<close> to \<open>B\<close>, then an invoice line of 6, then an
  adjustment by -10.\<close>

definition scenario_1 :: store where
  "scenario_1 =
     snd (transfer_inventory demo_store stamp_1 stamp_2 ''admin'' ''X'' ''A'' ''B'' 4 ''restock'')"

definition scenario_2 :: store where
  "scenario_2 = invoice_deduct scenario_1 ''ii1'' ''inv1'' (demo_line 6)"

definition scenario_3 :: "ui_outcome \<times> store" where
  "scenario_3 = adjust_stock scenario_2 stamp_1 ''admin'' ''X'' (- 10) ''Damaged''"

section \<open>Lists updated at one key\<close>

lemma distinct_map_Cons_neq:
  "distinct (map k (x # xs)) \<Longrightarrow> y \<in> set xs \<Longrightarrow> k y \<noteq> k x"
  by (metis distinct.simps(2) image_eqI list.simps(9) set_map)

lemma update_first_eq_map:
  "distinct (map k xs) \<Longrightarrow>
   update_first (\<lambda>x. k x = i) f xs = map (\<lambda>x. if k x = i then f x else x) xs"
proof (induction xs)
  case Nil
  show ?case by simp
next
  case (Cons x xs)
  show ?case
  proof (cases "k x = i")
    case True
    with Cons.prems have "\<forall>y\<in>set xs. k y \<noteq> i"
      by (metis distinct_map_Cons_neq)
    then have "map (\<lambda>x. if k x = i then f x else x) xs = xs"
      by (simp add: map_idI)
    with True show ?thesis by simp
  next
    case False
    with Cons show ?thesis by simp
  qed
qed

lemma find_key_distinct:
  "distinct (map k xs) \<Longrightarrow> x \<in> set xs \<Longrightarrow> find (\<lambda>y. k y = k x) xs = Some x"
  by (induction xs) auto

lemma key_inj_distinct:
  "distinct (map k xs) \<Longrightarrow> x \<in> set xs \<Longrightarrow> y \<in> set xs \<Longrightarrow> k x = k y \<Longrightarrow> x = y"
  by (meson distinct_map inj_onD)

lemma filter_map_key_update:
  "(\<And>x. P (f x) = P x) \<Longrightarrow>
   filter P (map (\<lambda>x. if k x = i then f x else x) xs) =
   map (\<lambda>x. if k x = i then f x else x) (filter P xs)"
  by (induction xs) auto

lemma sum_list_map_key_update:
  "distinct (map k xs) \<Longrightarrow> x \<in> set xs \<Longrightarrow>
   sum_list (map h (map (\<lambda>y. if k y = k x then f y else y) xs)) =
   sum_list (map h xs) - h x + (h (f x) :: int)"
proof (induction xs)
  case Nil
  then show ?case by simp
next
  case (Cons a xs)
  show ?case
  proof (cases "a = x")
    case True
    with Cons.prems have "\<forall>y\<in>set xs. k y \<noteq> k x"
      by (metis distinct_map_Cons_neq)
    then have "map (\<lambda>y. if k y = k x then f y else y) xs = xs"
      by (simp add: map_idI)
    with True show ?thesis by simp
  next
    case False
    with Cons.prems have "x \<in> set xs" and "k a \<noteq> k x" and "distinct (map k xs)"
      by (auto dest: key_inj_distinct [of k "a # xs" a x])
    with Cons.IH show ?thesis by simp
  qed
qed

lemma find_update_first:
  "(\<And>x. Q (f x) = Q x) \<Longrightarrow> find Q (update_first Q f xs) = map_option f (find Q xs)"
  by (induction xs) auto

lemma list_all2_update_first:
  "(\<And>x. R x x) \<Longrightarrow> (\<And>x. Q x \<Longrightarrow> R x (f x)) \<Longrightarrow> list_all2 R xs (update_first Q f xs)"
  by (induction xs) (auto simp: list_all2_refl)

lemma update_first_absent: "\<forall>x\<in>set xs. \<not> Q x \<Longrightarrow> update_first Q f xs = xs"
  by (induction xs) auto

section \<open>Facts about the store methods\<close>

lemma item_id_quantity_update [simp]:
  "item_id (quantity_update n i) = item_id i"
  "item_quantity (quantity_update n i) = n"
  by (simp_all add: quantity_update_def)

lemma il_quantity_loc_quantity_update [simp]:
  "il_quantity (loc_quantity_update n r) = n"
  "il_id (loc_quantity_update n r) = il_id r"
  "il_product_id (loc_quantity_update n r) = il_product_id r"
  "il_location_id (loc_quantity_update n r) = il_location_id r"
  by (simp_all add: loc_quantity_update_def)

lemma map_il_id_key_update [simp]:
  "map il_id (map (\<lambda>r. if il_id r = i then loc_quantity_update n r else r) xs) = map il_id xs"
  by (induction xs) auto

lemma inventory_locations_log_audit [simp]:
  "inventory_locations (log_audit s g u a d) = inventory_locations s"
  by (simp add: log_audit_def)

lemma inventory_log_audit [simp]: "inventory (log_audit s g u a d) = inventory s"
  by (simp add: log_audit_def)

lemma get_inventory_locations_both:
  "inventory_locations s = Some rows \<Longrightarrow> P \<noteq> [] \<Longrightarrow> L \<noteq> [] \<Longrightarrow>
   get_inventory_locations s (Some P) (Some L) =
     Inr (filter (\<lambda>il. il_product_id il = P \<and> il_location_id il = L) rows)"
  by (simp add: get_inventory_locations_def)

lemma get_inventory_locations_product:
  "inventory_locations s = Some rows \<Longrightarrow> P \<noteq> [] \<Longrightarrow>
   get_inventory_locations s (Some P) None = Inr (filter (\<lambda>il. il_product_id il = P) rows)"
  by (simp add: get_inventory_locations_def)

lemma update_inventory_location_distinct:
  assumes "inventory_locations s = Some rows" and "distinct (map il_id rows)" and "x \<in> set rows"
  shows "update_inventory_location s (il_id x) f =
           Inr (True, s\<lparr>inventory_locations :=
                  Some (map (\<lambda>r. if il_id r = il_id x then f r else r) rows)\<rparr>)"
  using assms
  by (simp add: update_inventory_location_def find_key_distinct update_first_eq_map)

lemma row_ids_differ:
  "distinct (map il_id rows) \<Longrightarrow> x \<in> set rows \<Longrightarrow> y \<in> set rows \<Longrightarrow>
   il_location_id x \<noteq> il_location_id y \<Longrightarrow> il_id x \<noteq> il_id y"
  by (metis key_inj_distinct)

lemma update_inventory_item_store:
  "snd (update_inventory_item s P f) =
     s\<lparr>inventory := update_first (\<lambda>i. item_id i = P) f (inventory s)\<rparr>"
  by (auto simp: update_inventory_item_def find_None_iff update_first_absent split: option.splits)

lemma product_quantity_update:
  "get_inventory_item s P = Some product \<Longrightarrow>
   product_quantity (snd (update_inventory_item s P (quantity_update n))) P = Some n"
  by (simp add: update_inventory_item_store product_quantity_def get_inventory_item_def
        find_update_first)

lemma only_quantity_changed_update:
  "only_quantity_changed s (snd (update_inventory_item s P (quantity_update n))) P"
  unfolding only_quantity_changed_def update_inventory_item_store
  by (auto intro!: list_all2_update_first simp: quantity_update_def)

lemma get_total_inventory_cong:
  "inventory_locations s' = inventory_locations s \<Longrightarrow>
   get_total_inventory_by_product s' P = get_total_inventory_by_product s P"
  by (simp add: get_total_inventory_by_product_def get_inventory_locations_def)

lemma inventory_locations_update_inventory_item [simp]:
  "inventory_locations (snd (update_inventory_item s P f)) = inventory_locations s"
  by (simp add: update_inventory_item_store)

lemma audit_log_update_inventory_item [simp]:
  "audit_log (snd (update_inventory_item s P f)) = audit_log s"
  by (simp add: update_inventory_item_store)

lemma add_invoice_item_frame [simp]:
  "inventory (snd (add_invoice_item s n i li)) = inventory s"
  "inventory_locations (snd (add_invoice_item s n i li)) = inventory_locations s"
  "audit_log (snd (add_invoice_item s n i li)) = audit_log s"
  by (simp_all add: add_invoice_item_def)

lemma get_inventory_item_add_invoice_item [simp]:
  "get_inventory_item (snd (add_invoice_item s n i li)) P = get_inventory_item s P"
  by (simp add: get_inventory_item_def)

lemma get_inventory_item_log_audit [simp]:
  "get_inventory_item (log_audit s g u a d) P = get_inventory_item s P"
  by (simp add: get_inventory_item_def)

lemma product_quantity_log_audit [simp]:
  "product_quantity (log_audit s g u a d) P = product_quantity s P"
  by (simp add: product_quantity_def)

lemma only_quantity_changed_log_audit [simp]:
  "only_quantity_changed s (log_audit s' g u a d) P = only_quantity_changed s s' P"
  by (simp add: only_quantity_changed_def)

lemma only_quantity_changed_refl: "only_quantity_changed s s P"
  by (simp add: only_quantity_changed_def list_all2_refl)

lemma only_quantity_changed_add_invoice_item:
  "only_quantity_changed (snd (add_invoice_item s n i li)) s' P = only_quantity_changed s s' P"
  by (simp add: only_quantity_changed_def)

lemma get_total_log_audit [simp]:
  "get_total_inventory_by_product (log_audit s g u a d) P = get_total_inventory_by_product s P"
  by (rule get_total_inventory_cong) simp

lemma get_total_update_inventory_item [simp]:
  "get_total_inventory_by_product (snd (update_inventory_item s I f)) P =
   get_total_inventory_by_product s P"
  by (rule get_total_inventory_cong) simp

lemma get_total_add_invoice_item [simp]:
  "get_total_inventory_by_product (snd (add_invoice_item s n i li)) P =
   get_total_inventory_by_product s P"
  by (rule get_total_inventory_cong) simp

lemma audit_log_invoice_deduct: "audit_log (invoice_deduct s new_id invoice_id li) = audit_log s"
  by (simp add: invoice_deduct_def Let_def split: option.splits)

lemma audit_log_invoice_deduct_all:
  "audit_log (invoice_deduct_all s invoice_id lines) = audit_log s"
  by (induction s invoice_id lines rule: invoice_deduct_all.induct)
     (simp_all add: audit_log_invoice_deduct)

lemma audit_log_log_audit:
  "audit_log (log_audit s g u a d) =
     audit_log s @ [\<lparr>al_id = uuid4 g, al_user_id = u, al_action = a, al_details = d,
                     al_timestamp = now_iso g\<rparr>]"
  by (simp add: log_audit_def)

lemma map_pair_of_update_first [simp]:
  "map pair_of (update_first Q (loc_quantity_update n) xs) = map pair_of xs"
  by (induction xs) (auto simp: pair_of_def)

lemma update_inventory_location_shape:
  assumes "inventory_locations s = Some rows"
  shows "\<exists>b. update_inventory_location s i f =
           Inr (b, s\<lparr>inventory_locations := Some (update_first (\<lambda>il. il_id il = i) f rows)\<rparr>)"
proof (cases "find (\<lambda>il. il_id il = i) rows")
  case None
  then have "update_first (\<lambda>il. il_id il = i) f rows = rows"
    by (simp add: find_None_iff update_first_absent)
  moreover have "s\<lparr>inventory_locations := Some rows\<rparr> = s"
    using assms by simp
  ultimately show ?thesis
    using assms None by (auto simp: update_inventory_location_def)
next
  case (Some a)
  with assms show ?thesis by (auto simp: update_inventory_location_def)
qed

lemma no_rows_no_pair:
  assumes "inventory_locations s = Some rows"
    and "get_inventory_locations s (Some P) (Some B) = Inr []"
  shows "(P, B) \<notin> set (map pair_of rows)"
proof
  assume "(P, B) \<in> set (map pair_of rows)"
  then obtain r where r: "r \<in> set rows" "il_product_id r = P" "il_location_id r = B"
    by (auto simp: pair_of_def)
  from assms r show False
    by (auto simp: get_inventory_locations_def filter_empty_conv split: if_splits)
qed

section \<open>The three outcomes of \<^verbatim>\<open>transfer_inventory\<close>\<close>

lemma transfer_inventory_not_enough:
  assumes rows: "inventory_locations s = Some rows"
    and low: "quantity_at s P A < q \<or> get_inventory_locations s (Some P) (Some A) = Inr []"
  shows "transfer_inventory s g_loc g_log user_id P A B q reason = (Not_enough_inventory, s)"
proof -
  from rows obtain found where read: "get_inventory_locations s (Some P) (Some A) = Inr found"
    by (simp add: get_inventory_locations_def)
  show ?thesis
  proof (cases found)
    case Nil
    with read show ?thesis by (simp add: transfer_inventory_def)
  next
    case (Cons src rest)
    with read low have "il_quantity src < q" by (simp add: quantity_at_def)
    with read Cons show ?thesis by (simp add: transfer_inventory_def)
  qed
qed

lemma transfer_inventory_no_collection:
  "inventory_locations s = None \<Longrightarrow>
   transfer_inventory s g_loc g_log user_id P A B q reason = (Error_transferring KeyError, s)"
  by (simp add: transfer_inventory_def get_inventory_locations_def)

lemma transfer_inventory_success_source:
  assumes "transfer_inventory s gl gg u P A B q reason = (Transferred_successfully, s')"
  shows "\<exists>rows src rest. inventory_locations s = Some rows \<and>
           get_inventory_locations s (Some P) (Some A) = Inr (src # rest) \<and>
           \<not> il_quantity src < q"
  using assms
  by (auto simp: transfer_inventory_def get_inventory_locations_def
           split: option.splits sum.splits list.splits if_splits)

lemma transfer_inventory_rows:
  assumes rows: "inventory_locations s = Some rows"
    and ids: "distinct (map il_id rows)"
    and ne: "P \<noteq> []" "A \<noteq> []" "B \<noteq> []"
    and AB: "A \<noteq> B"
    and src: "filter (\<lambda>il. il_product_id il = P \<and> il_location_id il = A) rows = src # rest"
    and enough: "\<not> il_quantity src < q"
  shows "transfer_inventory s gl gg u P A B q reason =
     (Transferred_successfully,
      log_audit
        (s\<lparr>inventory_locations := Some
             (case filter (\<lambda>il. il_product_id il = P \<and> il_location_id il = B) rows of
                [] \<Rightarrow>
                  map (\<lambda>r. if il_id r = il_id src
                            then loc_quantity_update (il_quantity src - q) r else r) rows @
                  [\<lparr>il_id = uuid4 gl, il_product_id = P, il_location_id = B,
                    il_quantity = q, il_created_at = now_iso gl\<rparr>]
              | d # _ \<Rightarrow>
                  map (\<lambda>r. if il_id r = il_id d
                            then loc_quantity_update (il_quantity d + q) r else r)
                    (map (\<lambda>r. if il_id r = il_id src
                              then loc_quantity_update (il_quantity src - q) r else r) rows))\<rparr>)
        gg u ''inventory_transfer'' (transfer_details q P A B reason))"
proof -
  let ?g1 = "\<lambda>r. if il_id r = il_id src then loc_quantity_update (il_quantity src - q) r else r"
  let ?PB = "\<lambda>il. il_product_id il = P \<and> il_location_id il = B"
  let ?s1 = "s\<lparr>inventory_locations := Some (map ?g1 rows)\<rparr>"
  have "src \<in> set (filter (\<lambda>il. il_product_id il = P \<and> il_location_id il = A) rows)"
    using src by simp
  then have src_in: "src \<in> set rows" and src_A: "il_location_id src = A"
    by simp_all
  have read_src: "get_inventory_locations s (Some P) (Some A) = Inr (src # rest)"
    using rows ne src by (simp add: get_inventory_locations_both)
  have upd_src: "update_inventory_location s (il_id src)
                   (loc_quantity_update (il_quantity src - q)) = Inr (True, ?s1)"
    using rows ids src_in by (rule update_inventory_location_distinct)
  have other_id: "il_id r \<noteq> il_id src" if "r \<in> set (filter ?PB rows)" for r
  proof
    assume "il_id r = il_id src"
    moreover from that have "r \<in> set rows" and "il_location_id r = B" by auto
    ultimately have "r = src" using ids src_in by (metis key_inj_distinct)
    with \<open>il_location_id r = B\<close> src_A AB show False by simp
  qed
  have "filter ?PB (map ?g1 rows) = map ?g1 (filter ?PB rows)"
    by (rule filter_map_key_update) (simp add: loc_quantity_update_def)
  also have "\<dots> = filter ?PB rows"
    by (rule map_idI) (simp only: other_id if_False)
  finally have read_dst: "get_inventory_locations ?s1 (Some P) (Some B) = Inr (filter ?PB rows)"
    using ne by (simp add: get_inventory_locations_both)
  show ?thesis
  proof (cases "filter ?PB rows")
    case Nil
    with read_src enough upd_src read_dst show ?thesis
      by (simp add: transfer_inventory_def add_inventory_location_def)
  next
    case (Cons d ds)
    then have "d \<in> set (filter ?PB rows)" by simp
    then have d_in: "d \<in> set rows" and d_id: "il_id d \<noteq> il_id src"
      using other_id by auto
    have "d \<in> set (map ?g1 rows)"
      using d_in d_id by (auto simp: image_iff intro!: bexI [of _ d])
    moreover have "distinct (map il_id (map ?g1 rows))"
      using ids by (simp add: o_def loc_quantity_update_def if_distrib cong: if_cong)
    ultimately have "update_inventory_location ?s1 (il_id d)
        (loc_quantity_update (il_quantity d + q)) =
      Inr (True, ?s1\<lparr>inventory_locations := Some
         (map (\<lambda>r. if il_id r = il_id d then loc_quantity_update (il_quantity d + q) r else r)
            (map ?g1 rows))\<rparr>)"
      by (intro update_inventory_location_distinct) simp_all
    with Cons read_src enough upd_src read_dst show ?thesis
      by (simp add: transfer_inventory_def)
  qed
qed

lemma transfer_inventory_shape:
  assumes rows: "inventory_locations s = Some rows"
    and read: "get_inventory_locations s (Some P) (Some A) = Inr (src # rest)"
    and enough: "\<not> il_quantity src < q"
  shows "\<exists>rows'. transfer_inventory s g_loc g_log user_id P A B q reason =
           (Transferred_successfully,
            log_audit (s\<lparr>inventory_locations := Some rows'\<rparr>) g_log user_id ''inventory_transfer''
              (transfer_details q P A B reason)) \<and>
           (map pair_of rows' = map pair_of rows \<or>
            map pair_of rows' = map pair_of rows @ [(P, B)] \<and> (P, B) \<notin> set (map pair_of rows))"
proof -
  define rows1 where
    "rows1 = update_first (\<lambda>il. il_id il = il_id src)
               (loc_quantity_update (il_quantity src - q)) rows"
  define s1 where "s1 = s\<lparr>inventory_locations := Some rows1\<rparr>"
  have rows1: "inventory_locations s1 = Some rows1" and pairs1: "map pair_of rows1 = map pair_of rows"
    by (simp_all add: s1_def rows1_def)
  from update_inventory_location_shape [OF rows] obtain b
    where upd1: "update_inventory_location s (il_id src)
                   (loc_quantity_update (il_quantity src - q)) = Inr (b, s1)"
    unfolding s1_def rows1_def by blast
  from rows1 obtain found where read2: "get_inventory_locations s1 (Some P) (Some B) = Inr found"
    by (simp add: get_inventory_locations_def)
  show ?thesis
  proof (cases found)
    case Nil
    let ?new = "\<lparr>il_id = uuid4 g_loc, il_product_id = P, il_location_id = B,
                  il_quantity = q, il_created_at = now_iso g_loc\<rparr>"
    have "(P, B) \<notin> set (map pair_of rows1)"
      using no_rows_no_pair [OF rows1, of P B] read2 Nil by simp
    then have fresh: "(P, B) \<notin> set (map pair_of rows)"
      by (metis pairs1)
    have "transfer_inventory s g_loc g_log user_id P A B q reason =
            (Transferred_successfully,
             log_audit (s\<lparr>inventory_locations := Some (rows1 @ [?new])\<rparr>) g_log user_id
               ''inventory_transfer'' (transfer_details q P A B reason))"
      using read enough upd1 read2 Nil rows1
      by (simp add: transfer_inventory_def add_inventory_location_def s1_def)
    moreover have "map pair_of (rows1 @ [?new]) = map pair_of rows @ [(P, B)]"
      by (simp add: pairs1 pair_of_def)
    ultimately show ?thesis using fresh by blast
  next
    case (Cons d ds)
    define rows2 where
      "rows2 = update_first (\<lambda>il. il_id il = il_id d)
                 (loc_quantity_update (il_quantity d + q)) rows1"
    from update_inventory_location_shape [OF rows1] obtain b2
      where upd2: "update_inventory_location s1 (il_id d)
                     (loc_quantity_update (il_quantity d + q)) =
                   Inr (b2, s1\<lparr>inventory_locations := Some rows2\<rparr>)"
      unfolding rows2_def by blast
    have "transfer_inventory s g_loc g_log user_id P A B q reason =
            (Transferred_successfully,
             log_audit (s\<lparr>inventory_locations := Some rows2\<rparr>) g_log user_id
               ''inventory_transfer'' (transfer_details q P A B reason))"
      using read enough upd1 read2 Cons upd2
      by (simp add: transfer_inventory_def s1_def)
    moreover have "map pair_of rows2 = map pair_of rows"
      by (simp add: rows2_def pairs1)
    ultimately show ?thesis by blast
  qed
qed

lemma transfer_inventory_ok_iff:
  assumes rows: "inventory_locations s = Some rows"
  shows "transfer_ok (fst (transfer_inventory s g_loc g_log user_id P A B q reason)) \<longleftrightarrow>
         \<not> (quantity_at s P A < q \<or> get_inventory_locations s (Some P) (Some A) = Inr [])"
proof (cases "quantity_at s P A < q \<or> get_inventory_locations s (Some P) (Some A) = Inr []")
  case True
  with rows have "transfer_inventory s g_loc g_log user_id P A B q reason = (Not_enough_inventory, s)"
    by (rule transfer_inventory_not_enough)
  with True show ?thesis by simp
next
  case False
  from rows obtain found where "get_inventory_locations s (Some P) (Some A) = Inr found"
    by (simp add: get_inventory_locations_def)
  with False obtain src rest
    where read: "get_inventory_locations s (Some P) (Some A) = Inr (src # rest)"
    by (cases found) auto
  with False have enough: "\<not> il_quantity src < q"
    by (simp add: quantity_at_def)
  from transfer_inventory_shape [OF rows read enough, of g_loc g_log user_id B reason]
  have "fst (transfer_inventory s g_loc g_log user_id P A B q reason) = Transferred_successfully"
    by auto
  with False show ?thesis by simp
qed

lemma transfer_inventory_pairs:
  assumes rows: "inventory_locations s = Some rows"
  shows "\<exists>rows'. inventory_locations (snd (transfer_inventory s g_loc g_log user_id P A B q reason)) =
                    Some rows' \<and>
           (map pair_of rows' = map pair_of rows \<or>
            map pair_of rows' = map pair_of rows @ [(P, B)] \<and> (P, B) \<notin> set (map pair_of rows))"
proof (cases "quantity_at s P A < q \<or> get_inventory_locations s (Some P) (Some A) = Inr []")
  case True
  with rows have "transfer_inventory s g_loc g_log user_id P A B q reason = (Not_enough_inventory, s)"
    by (rule transfer_inventory_not_enough)
  with rows show ?thesis by simp
next
  case False
  from rows obtain found where "get_inventory_locations s (Some P) (Some A) = Inr found"
    by (simp add: get_inventory_locations_def)
  with False obtain src rest
    where read: "get_inventory_locations s (Some P) (Some A) = Inr (src # rest)"
    by (cases found) auto
  with False have enough: "\<not> il_quantity src < q"
    by (simp add: quantity_at_def)
  from transfer_inventory_shape [OF rows read enough, of g_loc g_log user_id B reason]
  show ?thesis by auto
qed

lemma unique_pairs_transfer_inventory:
  assumes "unique_pairs s"
  shows "unique_pairs (snd (transfer_inventory s g_loc g_log user_id P A B q reason))"
proof (cases "inventory_locations s")
  case None
  then show ?thesis using assms by (simp add: transfer_inventory_no_collection)
next
  case (Some rows)
  from transfer_inventory_pairs [OF Some, of g_loc g_log user_id P A B q reason]
  obtain rows' where
    r': "inventory_locations (snd (transfer_inventory s g_loc g_log user_id P A B q reason)) = Some rows'"
    and pairs: "map pair_of rows' = map pair_of rows \<or>
                map pair_of rows' = map pair_of rows @ [(P, B)] \<and> (P, B) \<notin> set (map pair_of rows)"
    by blast
  from assms Some have "distinct (map pair_of rows)" by (simp add: unique_pairs_def)
  with pairs have "distinct (map pair_of rows')" by auto
  with r' show ?thesis by (simp add: unique_pairs_def)
qed

text \<open>Row ids stay distinct as long as \<^verbatim>\<open>uuid.uuid4()\<close> returns an id the store does not
  hold yet.\<close>

lemma map_il_id_update_first [simp]:
  "map il_id (update_first Q (loc_quantity_update n) xs) = map il_id xs"
  by (induction xs) auto

lemma transfer_inventory_row_ids:
  assumes rows: "inventory_locations s = Some rows"
  shows "\<exists>rows'. inventory_locations (snd (transfer_inventory s g_loc g_log user_id P A B q reason)) =
                    Some rows' \<and>
           (map il_id rows' = map il_id rows \<or> map il_id rows' = map il_id rows @ [uuid4 g_loc])"
proof -
  from rows obtain found where read: "get_inventory_locations s (Some P) (Some A) = Inr found"
    by (simp add: get_inventory_locations_def)
  show ?thesis
  proof (cases "found = [] \<or> il_quantity (hd found) < q")
    case True
    with read have "transfer_inventory s g_loc g_log user_id P A B q reason = (Not_enough_inventory, s)"
      by (cases found) (simp_all add: transfer_inventory_def)
    with rows show ?thesis by simp
  next
    case False
    then obtain src rest where found: "found = src # rest" and enough: "\<not> il_quantity src < q"
      by (cases found) auto
    define rows1 where
      "rows1 = update_first (\<lambda>il. il_id il = il_id src)
                 (loc_quantity_update (il_quantity src - q)) rows"
    define s1 where "s1 = s\<lparr>inventory_locations := Some rows1\<rparr>"
    have rows1: "inventory_locations s1 = Some rows1" and ids1: "map il_id rows1 = map il_id rows"
      by (simp_all add: s1_def rows1_def)
    from update_inventory_location_shape [OF rows] obtain b
      where upd1: "update_inventory_location s (il_id src)
                     (loc_quantity_update (il_quantity src - q)) = Inr (b, s1)"
      unfolding s1_def rows1_def by blast
    from rows1 obtain found2 where read2: "get_inventory_locations s1 (Some P) (Some B) = Inr found2"
      by (simp add: get_inventory_locations_def)
    show ?thesis
    proof (cases found2)
      case Nil
      with read found enough upd1 read2 rows1 ids1 show ?thesis
        by (simp add: transfer_inventory_def add_inventory_location_def s1_def)
    next
      case (Cons d ds)
      from update_inventory_location_shape [OF rows1] obtain b2
        where "update_inventory_location s1 (il_id d) (loc_quantity_update (il_quantity d + q)) =
                 Inr (b2, s1\<lparr>inventory_locations := Some (update_first (\<lambda>il. il_id il = il_id d)
                   (loc_quantity_update (il_quantity d + q)) rows1)\<rparr>)"
        by blast
      with read found enough upd1 read2 Cons ids1 show ?thesis
        by (simp add: transfer_inventory_def s1_def)
    qed
  qed
qed

lemma unique_row_ids_transfer_inventory:
  assumes "unique_row_ids s"
    and fresh: "\<forall>rows. inventory_locations s = Some rows \<longrightarrow> uuid4 g_loc \<notin> set (map il_id rows)"
  shows "unique_row_ids (snd (transfer_inventory s g_loc g_log user_id P A B q reason))"
proof (cases "inventory_locations s")
  case None
  then show ?thesis using assms by (simp add: transfer_inventory_no_collection)
next
  case (Some rows)
  from transfer_inventory_row_ids [OF Some, of g_loc g_log user_id P A B q reason]
  obtain rows' where
    r': "inventory_locations (snd (transfer_inventory s g_loc g_log user_id P A B q reason)) = Some rows'"
    and ids: "map il_id rows' = map il_id rows \<or> map il_id rows' = map il_id rows @ [uuid4 g_loc]"
    by blast
  from assms Some have "distinct (map il_id rows)" and "uuid4 g_loc \<notin> set (map il_id rows)"
    by (simp_all add: unique_row_ids_def)
  with ids have "distinct (map il_id rows')" by auto
  with r' show ?thesis by (simp add: unique_row_ids_def)
qed

section \<open>Sequences of operations and the location rows\<close>

lemma inventory_locations_handlers [simp]:
  "inventory_locations (snd (receive_stock s g u p q)) = inventory_locations s"
  "inventory_locations (snd (adjust_stock s g u p d r)) = inventory_locations s"
  "inventory_locations (snd (transfer_stock s g u p q a b)) = inventory_locations s"
  "inventory_locations (snd (deduct_stock s g u product q r)) = inventory_locations s"
  "inventory_locations (invoice_deduct s n i li) = inventory_locations s"
  by (simp_all add: receive_stock_def adjust_stock_def transfer_stock_def deduct_stock_def
        invoice_deduct_def Let_def split: option.splits)

lemma unique_pairs_apply_op: "unique_pairs s \<Longrightarrow> unique_pairs (apply_op s op)"
  by (cases op)
     (simp_all add: unique_pairs_def unique_pairs_transfer_inventory [unfolded unique_pairs_def])

lemma unique_pairs_run_ops: "unique_pairs s \<Longrightarrow> unique_pairs (run_ops s ops)"
  by (induction ops arbitrary: s) (simp_all add: unique_pairs_apply_op)

text \<open>From the structure \<^verbatim>\<open>_initialize_db\<close> creates, no operation ever brings the
  \<^verbatim>\<open>inventory_locations\<close> collection into being.\<close>

lemma apply_op_no_collection:
  "inventory_locations s = None \<Longrightarrow> inventory_locations (apply_op s op) = None"
  by (cases op) (simp_all add: transfer_inventory_no_collection)

lemma run_ops_no_collection:
  "inventory_locations s = None \<Longrightarrow> inventory_locations (run_ops s ops) = None"
  by (induction ops arbitrary: s) (simp_all add: apply_op_no_collection)

lemma run_ops_initial_store: "inventory_locations (run_ops initial_store ops) = None"
  by (rule run_ops_no_collection) (simp add: initial_store_def)

text \<open>The store \<^verbatim>\<open>_initialize_db\<close> creates has no location row at all, and
  \<^verbatim>\<open>add_inventory_location\<close>, which only appends, is reached from \<^verbatim>\<open>transfer_inventory\<close>
  alone, after the lookup of the destination has found no row.\<close>

lemma unique_pairs_initial_store: "unique_pairs (run_ops initial_store ops)"
  by (rule unique_pairs_run_ops) (simp add: unique_pairs_def initial_store_def)

lemma unique_pairs_add_inventory_location:
  assumes "inventory_locations s = Some rows"
  shows "unique_pairs (snd (add_inventory_location s g d)) \<longleftrightarrow>
         unique_pairs s \<and> (ld_product_id d, ld_location_id d) \<notin> set (map pair_of rows)"
  using assms by (auto simp: add_inventory_location_def unique_pairs_def pair_of_def)

section \<open>Audit entries of the ledger operations\<close>

lemma receive_stock_audit:
  "get_inventory_item s P = Some product \<Longrightarrow>
   \<exists>d. audit_log (snd (receive_stock s g u P q)) =
     audit_log s @ [\<lparr>al_id = uuid4 g, al_user_id = u, al_action = ''stock_received'',
                     al_details = d, al_timestamp = now_iso g\<rparr>]"
  by (simp add: receive_stock_def Let_def audit_log_log_audit)

lemma adjust_stock_audit:
  "get_inventory_item s P = Some product \<Longrightarrow>
   (if item_quantity product + delta < 0
    then audit_log (snd (adjust_stock s g u P delta reason)) = audit_log s
    else \<exists>d. audit_log (snd (adjust_stock s g u P delta reason)) =
           audit_log s @ [\<lparr>al_id = uuid4 g, al_user_id = u, al_action = ''stock_adjusted'',
                           al_details = d, al_timestamp = now_iso g\<rparr>])"
  by (simp add: adjust_stock_def Let_def audit_log_log_audit)

lemma deduct_stock_audit:
  "\<exists>d. audit_log (snd (deduct_stock s g u product q reason)) =
     audit_log s @ [\<lparr>al_id = uuid4 g, al_user_id = u, al_action = ''stock_deducted'',
                     al_details = d, al_timestamp = now_iso g\<rparr>]"
  by (simp add: deduct_stock_def Let_def audit_log_log_audit)

lemma transfer_inventory_audit:
  "audit_log (snd (transfer_inventory s g_loc g_log u P A B q reason)) =
     (if transfer_ok (fst (transfer_inventory s g_loc g_log u P A B q reason))
      then audit_log s @ [\<lparr>al_id = uuid4 g_log, al_user_id = u, al_action = ''inventory_transfer'',
                           al_details = transfer_details q P A B reason,
                           al_timestamp = now_iso g_log\<rparr>]
      else audit_log s)"
proof (cases "inventory_locations s")
  case None
  then show ?thesis by (simp add: transfer_inventory_no_collection)
next
  case (Some rows)
  show ?thesis
  proof (cases "quantity_at s P A < q \<or> get_inventory_locations s (Some P) (Some A) = Inr []")
    case True
    with Some have "transfer_inventory s g_loc g_log u P A B q reason = (Not_enough_inventory, s)"
      by (rule transfer_inventory_not_enough)
    then show ?thesis by simp
  next
    case False
    from Some obtain found where "get_inventory_locations s (Some P) (Some A) = Inr found"
      by (simp add: get_inventory_locations_def)
    with False obtain src rest
      where read: "get_inventory_locations s (Some P) (Some A) = Inr (src # rest)"
      by (cases found) auto
    with False have enough: "\<not> il_quantity src < q"
      by (simp add: quantity_at_def)
    from transfer_inventory_shape [OF Some read enough, of g_loc g_log u B reason]
    show ?thesis by (auto simp: audit_log_log_audit)
  qed
qed

lemma deduct_stock_clamps:
  assumes "get_inventory_item s (item_id product) = Some product"
  shows "(\<exists>n. product_quantity (snd (deduct_stock s g u product q reason)) (item_id product) = Some n \<and>
              0 \<le> n \<and> (item_quantity product < q \<longrightarrow> n = 0)) \<and>
         get_total_inventory_by_product (snd (deduct_stock s g u product q reason)) (item_id product) =
           get_total_inventory_by_product s (item_id product)"
  using assms
  by (simp add: deduct_stock_def Let_def product_quantity_update)

lemma invoice_deduct_nonnegative:
  assumes "get_inventory_item s (li_item_id li) = Some product"
  shows "\<exists>n. product_quantity (invoice_deduct s new_id invoice_id li) (li_item_id li) = Some n \<and> 0 \<le> n"
  using assms
  by (simp add: invoice_deduct_def Let_def product_quantity_update)

lemma invoice_deduct_unknown_product:
  "get_inventory_item s (li_item_id li) = None \<Longrightarrow>
   inventory (invoice_deduct s new_id invoice_id li) = inventory s"
  by (simp add: invoice_deduct_def Let_def)

section \<open>Properties of the ledger\<close>

subsection \<open>C1: what a transfer conserves\<close>

text \<open>
  C1 as stated fails where both locations are the same: \<^verbatim>\<open>transfer_inventory\<close> does not
  compare them, the destination lookup returns the row just decremented, and the call
  reports success with the quantity at (\<open>X\<close>, \<open>A\<close>) back at 10 instead of 6.
\<close>

theorem transfer_same_location_counterexample:
  "fst (transfer_inventory demo_store stamp_1 stamp_2 ''admin'' ''X'' ''A'' ''A'' 4 ''move'') =
     Transferred_successfully \<and>
   4 \<le> quantity_at demo_store ''X'' ''A'' \<and>
   quantity_at (snd (transfer_inventory demo_store stamp_1 stamp_2 ''admin'' ''X'' ''A'' ''A'' 4 ''move''))
     ''X'' ''A'' \<noteq> quantity_at demo_store ''X'' ''A'' - 4"
  by code_simp

text \<open>
  C1, amended: in a store whose location rows have distinct ids, for a product \<open>P\<close> and two
  different locations \<open>A\<close> and \<open>B\<close> (identifiers are non-empty strings), a successful
  \<^verbatim>\<open>transfer_inventory(P, A, B, q)\<close> decreases the quantity at (\<open>P\<close>, \<open>A\<close>) by exactly \<open>q\<close>,
  increases the quantity at (\<open>P\<close>, \<open>B\<close>) by exactly \<open>q\<close>, a row for (\<open>P\<close>, \<open>B\<close>) existing
  afterwards, leaves the sum over the rows of \<open>P\<close> unchanged, and leaves the
  \<^verbatim>\<open>inventory\<close> collection, hence every \<^verbatim>\<open>Product.quantity\<close>, unchanged.
\<close>

theorem transfer_conservation:
  assumes ok: "transfer_inventory s g_loc g_log user_id P A B q reason = (Transferred_successfully, s')"
    and ids: "unique_row_ids s"
    and ne: "P \<noteq> []" "A \<noteq> []" "B \<noteq> []"
    and AB: "A \<noteq> B"
  shows "quantity_at s' P A = quantity_at s P A - q \<and>
         quantity_at s' P B = quantity_at s P B + q \<and>
         (\<exists>il rest. get_inventory_locations s' (Some P) (Some B) = Inr (il # rest)) \<and>
         get_total_inventory_by_product s' P = get_total_inventory_by_product s P \<and>
         inventory s' = inventory s"
proof -
  let ?PA = "\<lambda>il. il_product_id il = P \<and> il_location_id il = A"
  let ?PB = "\<lambda>il. il_product_id il = P \<and> il_location_id il = B"
  let ?Pp = "\<lambda>il. il_product_id il = P"
  from transfer_inventory_success_source [OF ok]
  obtain rows src rest where rows: "inventory_locations s = Some rows"
    and read: "get_inventory_locations s (Some P) (Some A) = Inr (src # rest)"
    and enough: "\<not> il_quantity src < q"
    by blast
  from read rows ne have src: "filter ?PA rows = src # rest"
    by (simp add: get_inventory_locations_both)
  from ids rows have dist: "distinct (map il_id rows)"
    by (simp add: unique_row_ids_def)
  let ?g1 = "\<lambda>r. if il_id r = il_id src then loc_quantity_update (il_quantity src - q) r else r"
  let ?new = "\<lparr>il_id = uuid4 g_loc, il_product_id = P, il_location_id = B,
                il_quantity = q, il_created_at = now_iso g_loc\<rparr>"
  define rows' where "rows' =
    (case filter ?PB rows of
       [] \<Rightarrow> map ?g1 rows @ [?new]
     | d # _ \<Rightarrow> map (\<lambda>r. if il_id r = il_id d
                          then loc_quantity_update (il_quantity d + q) r else r) (map ?g1 rows))"
  from transfer_inventory_rows [OF rows dist ne AB src enough, of g_loc g_log user_id reason] ok
  have s': "s' = log_audit (s\<lparr>inventory_locations := Some rows'\<rparr>) g_log user_id
                   ''inventory_transfer'' (transfer_details q P A B reason)"
    by (simp add: rows'_def)
  then have rows_s': "inventory_locations s' = Some rows'"
    by simp
  have "src \<in> set (filter ?PA rows)" using src by simp
  then have src_in: "src \<in> set rows" and src_P: "il_product_id src = P"
    and src_A: "il_location_id src = A"
    by simp_all
  have qA: "quantity_at s P A = il_quantity src"
    using read by (simp add: quantity_at_def)
  have PA_g1: "filter ?PA (map ?g1 xs) = map ?g1 (filter ?PA xs)" for xs
    by (rule filter_map_key_update) simp
  have PB_g1: "filter ?PB (map ?g1 xs) = map ?g1 (filter ?PB xs)" for xs
    by (rule filter_map_key_update) simp
  have Pp_g1: "filter ?Pp (map ?g1 xs) = map ?g1 (filter ?Pp xs)" for xs
    by (rule filter_map_key_update) simp
  have dist_P: "distinct (map il_id (filter ?Pp rows))"
    using dist by (rule distinct_map_filter)
  have src_in_P: "src \<in> set (filter ?Pp rows)"
    using src_in src_P by simp
  have sum_g1: "sum_list (map il_quantity (map ?g1 (filter ?Pp rows))) =
                sum_list (map il_quantity (filter ?Pp rows)) - q"
    using sum_list_map_key_update [OF dist_P src_in_P, of il_quantity
            "loc_quantity_update (il_quantity src - q)"]
    by simp
  have total_s: "get_total_inventory_by_product s P =
                 Inr (sum_list (map il_quantity (filter ?Pp rows)))"
    using rows ne by (simp add: get_total_inventory_by_product_def get_inventory_locations_product)
  have total_s': "get_total_inventory_by_product s' P =
                  Inr (sum_list (map il_quantity (filter ?Pp rows')))"
    using rows_s' ne by (simp add: get_total_inventory_by_product_def get_inventory_locations_product)
  have read_A': "get_inventory_locations s' (Some P) (Some A) = Inr (filter ?PA rows')"
    using rows_s' ne by (simp add: get_inventory_locations_both)
  have read_B': "get_inventory_locations s' (Some P) (Some B) = Inr (filter ?PB rows')"
    using rows_s' ne by (simp add: get_inventory_locations_both)
  have read_B: "get_inventory_locations s (Some P) (Some B) = Inr (filter ?PB rows)"
    using rows ne by (simp add: get_inventory_locations_both)
  have inv: "inventory s' = inventory s"
    using s' by simp
  show ?thesis
  proof (cases "filter ?PB rows")
    case Nil
    then have r': "rows' = map ?g1 rows @ [?new]"
      by (simp add: rows'_def)
    have fA: "filter ?PA rows' = ?g1 src # map ?g1 rest"
      using AB by (simp add: r' PA_g1 src del: map_map)
    have fB: "filter ?PB rows' = [?new]"
      by (simp add: r' PB_g1 Nil del: map_map)
    have fP: "filter ?Pp rows' = map ?g1 (filter ?Pp rows) @ [?new]"
      by (simp add: r' Pp_g1 del: map_map)
    have "quantity_at s' P A = quantity_at s P A - q"
      by (simp add: quantity_at_def read_A' fA read)
    moreover have "quantity_at s' P B = quantity_at s P B + q"
      by (simp add: quantity_at_def read_B' read_B fB Nil)
    moreover have "\<exists>il rest. get_inventory_locations s' (Some P) (Some B) = Inr (il # rest)"
      by (simp add: read_B' fB)
    moreover have "get_total_inventory_by_product s' P = get_total_inventory_by_product s P"
      using sum_g1 by (simp add: total_s total_s' fP del: map_map)
    ultimately show ?thesis using inv by blast
  next
    case (Cons d ds)
    let ?g2 = "\<lambda>r. if il_id r = il_id d then loc_quantity_update (il_quantity d + q) r else r"
    from Cons have r': "rows' = map ?g2 (map ?g1 rows)"
      by (simp add: rows'_def)
    have "d \<in> set (filter ?PB rows)" using Cons by simp
    then have d_in: "d \<in> set rows" and d_P: "il_product_id d = P" and d_B: "il_location_id d = B"
      by simp_all
    have d_src: "il_id d \<noteq> il_id src"
      using dist d_in src_in d_B src_A AB by (intro row_ids_differ [of rows]) simp_all
    have g1_d: "?g1 d = d" using d_src by simp
    have PA_g2: "filter ?PA (map ?g2 xs) = map ?g2 (filter ?PA xs)" for xs
      by (rule filter_map_key_update) simp
    have PB_g2: "filter ?PB (map ?g2 xs) = map ?g2 (filter ?PB xs)" for xs
      by (rule filter_map_key_update) simp
    have Pp_g2: "filter ?Pp (map ?g2 xs) = map ?g2 (filter ?Pp xs)" for xs
      by (rule filter_map_key_update) simp
    have fA: "filter ?PA rows' = ?g2 (?g1 src) # map ?g2 (map ?g1 rest)"
      by (simp add: r' PA_g2 PA_g1 src del: map_map)
    have fB: "filter ?PB rows' = ?g2 (?g1 d) # map ?g2 (map ?g1 ds)"
      by (simp add: r' PB_g2 PB_g1 Cons del: map_map)
    have fP: "filter ?Pp rows' = map ?g2 (map ?g1 (filter ?Pp rows))"
      by (simp add: r' Pp_g2 Pp_g1 del: map_map)
    have dist_g1: "distinct (map il_id (map ?g1 (filter ?Pp rows)))"
      using dist_P by (simp del: map_map)
    have d_in_g1: "d \<in> set (map ?g1 (filter ?Pp rows))"
    proof -
      have "?g1 d \<in> ?g1 ` set (filter ?Pp rows)"
        using d_in d_P by (intro imageI) simp
      then show ?thesis by (simp only: g1_d set_map)
    qed
    have sum_g2: "sum_list (map il_quantity (map ?g2 (map ?g1 (filter ?Pp rows)))) =
                  sum_list (map il_quantity (map ?g1 (filter ?Pp rows))) + q"
      using sum_list_map_key_update [OF dist_g1 d_in_g1, of il_quantity
              "loc_quantity_update (il_quantity d + q)"]
      by simp
    have "quantity_at s' P A = quantity_at s P A - q"
      using d_src by (simp add: quantity_at_def read_A' fA read)
    moreover have "quantity_at s' P B = quantity_at s P B + q"
      using d_src by (simp add: quantity_at_def read_B' read_B fB Cons)
    moreover have "\<exists>il rest. get_inventory_locations s' (Some P) (Some B) = Inr (il # rest)"
      by (simp add: read_B' fB)
    moreover have "get_total_inventory_by_product s' P = get_total_inventory_by_product s P"
      using sum_g1 sum_g2 by (simp add: total_s total_s' fP del: map_map)
    ultimately show ?thesis using inv by blast
  qed
qed

theorem transfer_conservation_witness:
  "transfer_inventory demo_store stamp_1 stamp_2 ''admin'' ''X'' ''A'' ''B'' 4 ''restock'' =
     (Transferred_successfully, scenario_1) \<and>
   unique_row_ids demo_store \<and>
   quantity_at scenario_1 ''X'' ''A'' = 6 \<and>
   quantity_at scenario_1 ''X'' ''B'' = 4 \<and>
   get_total_inventory_by_product scenario_1 ''X'' = Inr 10 \<and>
   inventory scenario_1 = inventory demo_store"
proof -
  have ok: "transfer_inventory demo_store stamp_1 stamp_2 ''admin'' ''X'' ''A'' ''B'' 4 ''restock'' =
              (Transferred_successfully, scenario_1)"
    by code_simp
  have ids: "unique_row_ids demo_store"
    by code_simp
  have before: "quantity_at demo_store ''X'' ''A'' = 10" "quantity_at demo_store ''X'' ''B'' = 0"
    "get_total_inventory_by_product demo_store ''X'' = Inr 10"
    by code_simp+
  from transfer_conservation [OF ok ids] before ok ids show ?thesis
    by simp
qed

subsection \<open>C2: deduction on sale\<close>

text \<open>
  C2 as stated fails on the total: the invoice form writes the clamped value to the
  product's own \<^verbatim>\<open>quantity\<close> and never touches a location row, so the sum over the rows
  of \<open>X\<close> is still 10 after 16 units are deducted from a stock of 10.
\<close>

theorem deduct_total_counterexample:
  "product_quantity demo_store ''X'' = Some 10 \<and> (0::int) < 16 \<and>
   get_total_inventory_by_product (invoice_deduct demo_store ''ii1'' ''inv1'' (demo_line 16)) ''X''
     \<noteq> Inr 0"
  by code_simp

text \<open>
  C2, amended: for every product in the inventory and every invoice line for it whose
  quantity is greater than the product's current \<^verbatim>\<open>quantity\<close>, the deduction of the invoice
  form goes through (it has no failing branch) and leaves the product's \<^verbatim>\<open>quantity\<close> at 0,
  never below; the sum over the product's location rows is unchanged by it.
\<close>

theorem deduct_clamps_aggregate:
  assumes "get_inventory_item s (li_item_id li) = Some product"
    and "item_quantity product < li_quantity li"
  shows "product_quantity (invoice_deduct s new_id invoice_id li) (li_item_id li) = Some 0 \<and>
         get_total_inventory_by_product (invoice_deduct s new_id invoice_id li) (li_item_id li) =
           get_total_inventory_by_product s (li_item_id li)"
  using assms
  by (simp add: invoice_deduct_def Let_def product_quantity_update)

theorem deduct_clamps_aggregate_witness:
  "get_inventory_item demo_store (li_item_id (demo_line 16)) = Some (hd (inventory demo_store)) \<and>
   item_quantity (hd (inventory demo_store)) < li_quantity (demo_line 16) \<and>
   product_quantity (invoice_deduct demo_store ''ii1'' ''inv1'' (demo_line 16)) ''X'' = Some 0 \<and>
   get_total_inventory_by_product (invoice_deduct demo_store ''ii1'' ''inv1'' (demo_line 16)) ''X'' =
     Inr 10"
proof -
  have found: "get_inventory_item demo_store (li_item_id (demo_line 16)) =
                 Some (hd (inventory demo_store))"
    by code_simp
  have more: "item_quantity (hd (inventory demo_store)) < li_quantity (demo_line 16)"
    by code_simp
  have before: "get_total_inventory_by_product demo_store ''X'' = Inr 10"
    "li_item_id (demo_line 16) = ''X''"
    by code_simp+
  from deduct_clamps_aggregate [OF found more, where new_id = "''ii1''" and invoice_id = "''inv1''"]
    before found more
  show ?thesis by simp
qed

subsection \<open>C3: receiving stock\<close>

text \<open>
  C3 as stated fails: "Receive Stock" adds to the product's own \<^verbatim>\<open>quantity\<close> and writes no
  location row, so the sum over the rows of \<open>X\<close> is 10 before and after 5 units are received.
\<close>

theorem receive_total_counterexample:
  "fst (receive_stock demo_store stamp_1 ''admin'' ''X'' 5) =
     St_success ''Stock updated! New quantity: 15'' \<and>
   get_total_inventory_by_product demo_store ''X'' = Inr 10 \<and>
   get_total_inventory_by_product (snd (receive_stock demo_store stamp_1 ''admin'' ''X'' 5)) ''X''
     \<noteq> Inr (10 + 5)"
  by code_simp

text \<open>
  C3, amended: for every product \<open>P\<close> in the inventory and every quantity \<open>q\<close>, "Receive Stock"
  succeeds and increases the product's own \<^verbatim>\<open>quantity\<close> by exactly \<open>q\<close>; the sum over the
  product's location rows is unchanged by it.
\<close>

theorem receive_increases_aggregate:
  assumes "get_inventory_item s P = Some product"
  shows "fst (receive_stock s g user_id P q) =
           St_success (''Stock updated! New quantity: '' @ str_int (item_quantity product + q)) \<and>
         product_quantity (snd (receive_stock s g user_id P q)) P = Some (item_quantity product + q) \<and>
         get_total_inventory_by_product (snd (receive_stock s g user_id P q)) P =
           get_total_inventory_by_product s P"
  using assms
  by (simp add: receive_stock_def Let_def product_quantity_update)

theorem receive_increases_aggregate_witness:
  "get_inventory_item demo_store ''X'' = Some (hd (inventory demo_store)) \<and>
   product_quantity demo_store ''X'' = Some 10 \<and>
   product_quantity (snd (receive_stock demo_store stamp_1 ''admin'' ''X'' 5)) ''X'' = Some 15 \<and>
   get_total_inventory_by_product (snd (receive_stock demo_store stamp_1 ''admin'' ''X'' 5)) ''X'' =
     Inr 10"
proof -
  have found: "get_inventory_item demo_store ''X'' = Some (hd (inventory demo_store))"
    by code_simp
  have before: "product_quantity demo_store ''X'' = Some 10"
    "item_quantity (hd (inventory demo_store)) = 10"
    "get_total_inventory_by_product demo_store ''X'' = Inr 10"
    by code_simp+
  from receive_increases_aggregate [OF found, where g = stamp_1 and user_id = "''admin''" and q = 5]
    before found
  show ?thesis by simp
qed

subsection \<open>C4: an adjustment below zero is rejected\<close>

text \<open>
  C4: for every product \<open>P\<close> in the inventory and every negative \<open>delta\<close> whose magnitude
  exceeds the product's current \<^verbatim>\<open>quantity\<close>, "Adjust Stock" reports
  "Cannot have negative stock" and returns the store as it was: no quantity, no location
  row and no audit entry is written.
\<close>

theorem adjust_rejects_negative_stock:
  assumes "get_inventory_item s P = Some product"
    and "delta < 0"
    and "item_quantity product < - delta"
  shows "adjust_stock s g user_id P delta reason = (St_error ''Cannot have negative stock'', s)"
  using assms by (simp add: adjust_stock_def Let_def)

theorem adjust_rejects_negative_stock_witness:
  "get_inventory_item demo_store ''X'' = Some (hd (inventory demo_store)) \<and>
   (- 15 :: int) < 0 \<and> item_quantity (hd (inventory demo_store)) < - (- 15) \<and>
   adjust_stock demo_store stamp_1 ''admin'' ''X'' (- 15) ''Damaged'' =
     (St_error ''Cannot have negative stock'', demo_store)"
proof -
  have found: "get_inventory_item demo_store ''X'' = Some (hd (inventory demo_store))"
    by code_simp
  have neg: "(- 15 :: int) < 0"
    by simp
  have more: "item_quantity (hd (inventory demo_store)) < - (- 15)"
    by code_simp
  from adjust_rejects_negative_stock [OF found neg more, where g = stamp_1
      and user_id = "''admin''" and reason = "''Damaged''"]
    found neg more
  show ?thesis by simp
qed

subsection \<open>C5: a transfer the source cannot cover\<close>




subsection \<open>C6: arguments a transfer does not validate\<close>

text \<open>
  C6 as stated fails: \<^verbatim>\<open>transfer_inventory\<close> checks neither the sign of the quantity nor
  that the two locations differ. A transfer from \<open>A\<close> to \<open>A\<close> succeeds, and so does a
  transfer of -4, which leaves -4 units at \<open>B\<close>.
\<close>

theorem transfer_unvalidated_counterexample:
  "transfer_ok (fst (transfer_inventory demo_store stamp_1 stamp_2 ''admin'' ''X'' ''A'' ''A'' 4 ''move'')) \<and>
   transfer_ok (fst (transfer_inventory demo_store stamp_1 stamp_2 ''admin'' ''X'' ''A'' ''B'' (- 4) ''move'')) \<and>
   quantity_at (snd (transfer_inventory demo_store stamp_1 stamp_2 ''admin'' ''X'' ''A'' ''B'' (- 4) ''move''))
     ''X'' ''B'' = - 4"
  by code_simp

text \<open>
  C6, amended: in a store that has the \<^verbatim>\<open>inventory_locations\<close> collection, a call
  \<^verbatim>\<open>transfer_inventory(P, A, B, q)\<close> with \<open>q \<le> 0\<close> or \<open>A = B\<close> is not rejected for that: it
  either succeeds or returns "Not enough inventory at source location", the latter exactly
  when there is no row for (\<open>P\<close>, \<open>A\<close>) or its quantity is below \<open>q\<close>, and in that case no
  record is changed.
\<close>

theorem transfer_no_validation:
  assumes rows: "inventory_locations s = Some rows"
    and bad: "q \<le> 0 \<or> A = B"
  shows "(fst (transfer_inventory s g_loc g_log user_id P A B q reason) = Not_enough_inventory \<or>
          fst (transfer_inventory s g_loc g_log user_id P A B q reason) = Transferred_successfully) \<and>
         (fst (transfer_inventory s g_loc g_log user_id P A B q reason) = Not_enough_inventory \<longleftrightarrow>
            quantity_at s P A < q \<or> get_inventory_locations s (Some P) (Some A) = Inr []) \<and>
         (fst (transfer_inventory s g_loc g_log user_id P A B q reason) = Not_enough_inventory \<longrightarrow>
            snd (transfer_inventory s g_loc g_log user_id P A B q reason) = s)"
proof (cases "quantity_at s P A < q \<or> get_inventory_locations s (Some P) (Some A) = Inr []")
  case True
  with rows have "transfer_inventory s g_loc g_log user_id P A B q reason = (Not_enough_inventory, s)"
    by (rule transfer_inventory_not_enough)
  with True show ?thesis by simp
next
  case False
  with transfer_inventory_ok_iff [OF rows, of g_loc g_log user_id P A B q reason]
  have "transfer_ok (fst (transfer_inventory s g_loc g_log user_id P A B q reason))"
    by simp
  then have "fst (transfer_inventory s g_loc g_log user_id P A B q reason) = Transferred_successfully"
    by (cases "fst (transfer_inventory s g_loc g_log user_id P A B q reason)") simp_all
  with False show ?thesis by simp
qed

theorem transfer_no_validation_witness:
  "inventory_locations demo_store \<noteq> None \<and> ((4::int) \<le> 0 \<or> ''A'' = ''A'') \<and>
   \<not> quantity_at demo_store ''X'' ''A'' < 4 \<and>
   get_inventory_locations demo_store (Some ''X'') (Some ''A'') \<noteq> Inr [] \<and>
   fst (transfer_inventory demo_store stamp_1 stamp_2 ''admin'' ''X'' ''A'' ''A'' 4 ''move'') =
     Transferred_successfully"
proof -
  obtain rows where rows: "inventory_locations demo_store = Some rows"
    by (simp add: demo_store_def)
  have bad: "(4::int) \<le> 0 \<or> ''A'' = ''A''"
    by simp
  have enough: "\<not> quantity_at demo_store ''X'' ''A'' < 4"
    by code_simp
  have row: "get_inventory_locations demo_store (Some ''X'') (Some ''A'') \<noteq> Inr []"
    by code_simp
  from transfer_no_validation [OF rows bad, where g_loc = stamp_1 and g_log = stamp_2
      and user_id = "''admin''" and P = "''X''" and reason = "''move''"]
    enough row
  have "fst (transfer_inventory demo_store stamp_1 stamp_2 ''admin'' ''X'' ''A'' ''A'' 4 ''move'') =
          Transferred_successfully"
    by blast
  with rows bad enough row show ?thesis by simp
qed

subsection \<open>C7: audit entries\<close>

text \<open>
  C7 fails for the deduction on sale: the invoice form updates the product's quantity
  and writes no audit entry, whereas "Deduct Stock", "Receive Stock", "Adjust Stock" and
  \<^verbatim>\<open>transfer_inventory\<close> each append one entry when they succeed and none when they are
  rejected (\<open>deduct_stock_audit\<close>, \<open>receive_stock_audit\<close>, \<open>adjust_stock_audit\<close>,
  \<open>transfer_inventory_audit\<close>). An invoice line of 6 for product \<open>X\<close> takes its quantity
  from 10 to 4 and leaves the audit log as it was.
\<close>

theorem invoice_deduct_logs_nothing:
  "product_quantity demo_store ''X'' = Some 10 \<and>
   product_quantity (invoice_deduct demo_store ''ii1'' ''inv1'' (demo_line 6)) ''X'' = Some 4 \<and>
   audit_log (invoice_deduct demo_store ''ii1'' ''inv1'' (demo_line 6)) = audit_log demo_store"
  by code_simp

subsection \<open>C8: one row for each product and location\<close>



subsection \<open>C9: the scenario\<close>

text \<open>
  C9 as stated fails at its second step: after the invoice line of 6 the sum over the
  location rows of \<open>X\<close> is still 10, not 4; it is the product's own \<^verbatim>\<open>quantity\<close> that is 4.
\<close>

theorem scenario_total_counterexample:
  "get_total_inventory_by_product scenario_2 ''X'' \<noteq> Inr 4"
  by code_simp

text \<open>
  C9, amended: starting from product \<open>X\<close> with quantity 10, 10 units at \<open>A\<close> and 0 at \<open>B\<close>,
  the transfer of 4 from \<open>A\<close> to \<open>B\<close> succeeds and leaves 6 at \<open>A\<close>, 4 at \<open>B\<close>, a sum over
  the rows of 10 and the product's \<^verbatim>\<open>quantity\<close> at 10; the invoice line of 6 then leaves the
  product's \<^verbatim>\<open>quantity\<close> at 4 and the sum over the rows at 10; the adjustment by -10 is then
  rejected with "Cannot have negative stock" and changes nothing.
\<close>

theorem scenario_run:
  "product_quantity demo_store ''X'' = Some 10 \<and>
   quantity_at demo_store ''X'' ''A'' = 10 \<and>
   quantity_at demo_store ''X'' ''B'' = 0 \<and>
   transfer_inventory demo_store stamp_1 stamp_2 ''admin'' ''X'' ''A'' ''B'' 4 ''restock'' =
     (Transferred_successfully, scenario_1) \<and>
   quantity_at scenario_1 ''X'' ''A'' = 6 \<and>
   quantity_at scenario_1 ''X'' ''B'' = 4 \<and>
   get_total_inventory_by_product scenario_1 ''X'' = Inr 10 \<and>
   product_quantity scenario_1 ''X'' = Some 10 \<and>
   product_quantity scenario_2 ''X'' = Some 4 \<and>
   get_total_inventory_by_product scenario_2 ''X'' = Inr 10 \<and>
   scenario_3 = (St_error ''Cannot have negative stock'', scenario_2)"
  by code_simp

subsection \<open>C10: what receiving and deducting leave alone\<close>

text \<open>
  C10: "Receive Stock", "Deduct Stock" and the deduction of the invoice form change
  nothing in the \<^verbatim>\<open>inventory\<close> and \<^verbatim>\<open>inventory_locations\<close> collections except the
  \<^verbatim>\<open>quantity\<close> of the product they are called for: every location row, every record of
  another product and every other field of the product's record are as before.
\<close>

theorem receive_deduct_frame:
  "only_quantity_changed s (snd (receive_stock s g user_id P q)) P \<and>
   only_quantity_changed s (snd (deduct_stock s g user_id product q reason)) (item_id product) \<and>
   only_quantity_changed s (invoice_deduct s new_id invoice_id li) (li_item_id li)"
proof (intro conjI)
  show "only_quantity_changed s (snd (receive_stock s g user_id P q)) P"
    by (simp add: receive_stock_def Let_def only_quantity_changed_refl
          only_quantity_changed_update split: option.splits)
  show "only_quantity_changed s (snd (deduct_stock s g user_id product q reason)) (item_id product)"
    by (simp add: deduct_stock_def Let_def only_quantity_changed_update)
  have "only_quantity_changed (snd (add_invoice_item s new_id invoice_id li))
          (invoice_deduct s new_id invoice_id li) (li_item_id li)"
    by (simp add: invoice_deduct_def Let_def only_quantity_changed_refl
          only_quantity_changed_update split: option.splits)
  then show "only_quantity_changed s (invoice_deduct s new_id invoice_id li) (li_item_id li)"
    by (simp only: only_quantity_changed_add_invoice_item)
qed

theorem receive_deduct_frame_witness:
  "only_quantity_changed demo_store (snd (receive_stock demo_store stamp_1 ''admin'' ''X'' 5)) ''X'' \<and>
   only_quantity_changed demo_store
     (snd (deduct_stock demo_store stamp_1 ''admin'' (hd (inventory demo_store)) 5 ''sold'')) ''X'' \<and>
   only_quantity_changed demo_store (invoice_deduct demo_store ''ii1'' ''inv1'' (demo_line 6)) ''X'' \<and>
   product_quantity (snd (receive_stock demo_store stamp_1 ''admin'' ''X'' 5)) ''X'' = Some 15 \<and>
   inventory (snd (receive_stock demo_store stamp_1 ''admin'' ''X'' 5)) ! 1 = inventory demo_store ! 1"
proof -
  have ids: "item_id (hd (inventory demo_store)) = ''X''" "li_item_id (demo_line 6) = ''X''"
    by code_simp+
  have changed: "product_quantity (snd (receive_stock demo_store stamp_1 ''admin'' ''X'' 5)) ''X'' = Some 15"
    "inventory (snd (receive_stock demo_store stamp_1 ''admin'' ''X'' 5)) ! 1 = inventory demo_store ! 1"
    by code_simp+
  from receive_deduct_frame [where s = demo_store and g = stamp_1 and user_id = "''admin''"
      and P = "''X''" and q = 5 and product = "hd (inventory demo_store)" and reason = "''sold''"
      and new_id = "''ii1''" and invoice_id = "''inv1''" and li = "demo_line 6"] ids changed
  show ?thesis by simp
qed

end
